theory Spec2Isabelle
  imports Main
begin

section \<open>Data model\<close>

text \<open>
  The interface declarations (\<^verbatim>\<open>src/Interfaces/*\<close>) and the configuration parser
  (\<^verbatim>\<open>src/Config\<close>) are imported by \<^verbatim>\<open>src/Client/index.ts\<close> as types only. The
  records below carry exactly the fields that the client reads, under the names the
  client uses. Nested configuration objects are flattened:
  \<^verbatim>\<open>config.location.daysAround.start\<close> is \<open>daysAround_start\<close>, and so on.

  A timestamp is a string in the API's JSON and is only ever used through
  \<^verbatim>\<open>dayjs(...)\<close>. A field that holds a timestamp therefore holds the value that
  \<^verbatim>\<open>dayjs\<close> parses from it: the local wall-clock instant, in milliseconds since
  1970-01-01T00:00 local time (a Thursday). Timestamps are assumed well-formed.
\<close>

type_synonym dayjs = int

record AvailableTimeSlots =
  SlotId :: int
  StartDateTime :: dayjs
  Duration :: int
  FormattedStartDateTime :: string

record LocationAvailabilityDate =
  AvailabilityDate :: dayjs
  AvailableTimeSlots :: "AvailableTimeSlots list"

record AvailableLocationDatesResponse =
  LocationAvailabilityDates :: "LocationAvailabilityDate list"

record AvailableLocationResponse =
  Id_loc :: int                   \<comment> \<open>\<^verbatim>\<open>Id\<close>\<close>
  Name :: string

record ExistBookingResponse =
  ServiceTypeId :: int
  ConfirmationNumber :: string
  SiteName :: string
  BookingDateTime :: dayjs

record HoldSlotResponse =
  SlotHeldSuccessfully :: bool
  ErrorMessage :: string

record Booking =
  ConfirmationNumber_booking :: string   \<comment> \<open>\<^verbatim>\<open>Booking.ConfirmationNumber\<close>\<close>

record BookSlotResponse =
  Booking :: "Booking option"     \<comment> \<open>\<open>None\<close> is JSON \<^verbatim>\<open>null\<close>\<close>

record EligibilityResponse =
  ResponseId :: int

record config =
  typeId :: "int option"          \<comment> \<open>\<^verbatim>\<open>personalInfo.typeId\<close>; \<open>None\<close> when unset\<close>
  sameDay :: bool                 \<comment> \<open>\<^verbatim>\<open>location.sameDay\<close>\<close>
  preferredDays :: "int list"     \<comment> \<open>\<^verbatim>\<open>location.preferredDays\<close>, weekdays 0 (Sunday) to 6\<close>
  daysAround_startDate :: dayjs   \<comment> \<open>\<^verbatim>\<open>dayjs(location.daysAround.startDate)\<close>\<close>
  daysAround_start :: int
  daysAround_end :: int
  timesAround_start :: int
  timesAround_end :: int
  maxRetry :: int                 \<comment> \<open>\<^verbatim>\<open>appSettings.maxRetry\<close>\<close>
  cancelIfExist :: bool           \<comment> \<open>\<^verbatim>\<open>appSettings.cancelIfExist\<close>\<close>

section \<open>The dayjs operations the client calls\<close>

text \<open>
  \<^verbatim>\<open>dayjs\<close> is a dependency. Its operations are given here on the local wall-clock
  time line, following the library: \<^verbatim>\<open>isBefore\<close> and \<^verbatim>\<open>isAfter\<close> with a unit compare
  against the end and the start of the receiver's unit, and \<^verbatim>\<open>isBetween\<close>, called with
  three arguments, has the default inclusivity \<^verbatim>\<open>'()'\<close> and accepts its bounds in
  either order.
\<close>

definition msPerHour :: int where
  "msPerHour = 3600000"

definition msPerDay :: int where
  "msPerDay = 86400000"

definition dayjs_day :: "dayjs \<Rightarrow> int" where
  "dayjs_day t = (t div msPerDay + 4) mod 7"

definition dayjs_hour :: "dayjs \<Rightarrow> int" where
  "dayjs_hour t = (t mod msPerDay) div msPerHour"

definition dayjs_add_day :: "dayjs \<Rightarrow> int \<Rightarrow> dayjs" where
  "dayjs_add_day t n = t + n * msPerDay"

definition startOf_day :: "dayjs \<Rightarrow> dayjs" where
  "startOf_day t = t - t mod msPerDay"

definition endOf_day :: "dayjs \<Rightarrow> dayjs" where
  "endOf_day t = startOf_day t + msPerDay - 1"

definition isAfter_day :: "dayjs \<Rightarrow> dayjs \<Rightarrow> bool" where
  "isAfter_day this that = (that < startOf_day this)"

definition isBefore_day :: "dayjs \<Rightarrow> dayjs \<Rightarrow> bool" where
  "isBefore_day this that = (endOf_day this < that)"

definition isBetween_day :: "dayjs \<Rightarrow> dayjs \<Rightarrow> dayjs \<Rightarrow> bool" where
  "isBetween_day this a b =
     ((isAfter_day this a \<and> isBefore_day this b) \<or> (isBefore_day this a \<and> isAfter_day this b))"

text \<open>The calendar day of an instant, as a day number.\<close>

definition calendarDay :: "dayjs \<Rightarrow> int" where
  "calendarDay t = t div msPerDay"

section \<open>Availability Filter (\<^verbatim>\<open>getLocationDates\<close>, lines 181 to 208)\<close>

text \<open>The callback of the first \<^verbatim>\<open>filter\<close>, lines 182 to 192.\<close>

definition windowFilter :: "config \<Rightarrow> LocationAvailabilityDate \<Rightarrow> bool" where
  "windowFilter cfg date =
     (let AvailabilityDate' = AvailabilityDate date;
          startDate = daysAround_startDate cfg;
          preferredDaysCondition =
            (if length (preferredDays cfg) > 0
             then dayjs_day AvailabilityDate' \<in> set (preferredDays cfg) else True)
      in isBetween_day AvailabilityDate'
           (dayjs_add_day startDate (daysAround_start cfg))
           (dayjs_add_day startDate (daysAround_end cfg))
         \<and> length (AvailableTimeSlots date) > 0
         \<and> preferredDaysCondition)"

text \<open>Lines 179 to 193: the raw list, narrowed only when not in same-day mode.\<close>

definition AvailableDates :: "config \<Rightarrow> LocationAvailabilityDate list \<Rightarrow> LocationAvailabilityDate list" where
  "AvailableDates cfg raw = (if \<not> sameDay cfg then filter (windowFilter cfg) raw else raw)"

text \<open>The callback of the slot \<^verbatim>\<open>filter\<close>, lines 197 to 201.\<close>

definition hourFilter :: "config \<Rightarrow> AvailableTimeSlots \<Rightarrow> bool" where
  "hourFilter cfg timeSlot =
     (let startDateTime = StartDateTime timeSlot;
          startHour = dayjs_hour startDateTime
      in startHour \<ge> timesAround_start cfg \<and> startHour < timesAround_end cfg)"

definition filteredTimeSlots :: "config \<Rightarrow> LocationAvailabilityDate \<Rightarrow> AvailableTimeSlots list" where
  "filteredTimeSlots cfg date = filter (hourFilter cfg) (AvailableTimeSlots date)"

text \<open>Lines 196 to 206: every date with its slots narrowed, then the dates left with a slot.\<close>

definition filteredAvailabilityDates :: "config \<Rightarrow> LocationAvailabilityDate list \<Rightarrow> LocationAvailabilityDate list" where
  "filteredAvailabilityDates cfg dates =
     filter (\<lambda>date. length (AvailableTimeSlots date) > 0)
       (map (\<lambda>date. date\<lparr>AvailableTimeSlots := filteredTimeSlots cfg date\<rparr>) dates)"

section \<open>Effects: the scheduler's state, the Transport, logging\<close>

text \<open>
  What the client does beyond computing values is made explicit. A request body is
  recorded by the fields that vary from call to call; the operator's personal fields,
  copied from the configuration into every body, are left out.
\<close>

datatype payload =
    ExistBookingPayload
  | CancelBookingPayload string                \<comment> \<open>\<^verbatim>\<open>ConfirmationNumber\<close>\<close>
  | EligibilityPayload
  | AvailableLocationDatesPayload int bool int \<comment> \<open>\<^verbatim>\<open>LocationId\<close>, \<^verbatim>\<open>SameDay\<close>, \<^verbatim>\<open>TypeId\<close>\<close>
  | HoldSlotPayload int                        \<comment> \<open>\<^verbatim>\<open>SlotId\<close>\<close>
  | BookSlotPayload dayjs int int int int      \<comment> \<open>\<^verbatim>\<open>BookingDateTime\<close>, \<^verbatim>\<open>BookingDuration\<close>,
                                                    \<^verbatim>\<open>ResponseId\<close>, \<^verbatim>\<open>ServiceTypeId\<close>, \<^verbatim>\<open>SiteId\<close>\<close>

text \<open>One constructor for each log call of the client, with the values it interpolates.\<close>

datatype message =
    IsAvailable string string     \<comment> \<open>line 210: location name, formatted start\<close>
  | CancelDisabled                \<comment> \<open>line 213\<close>
  | NotAvailable string           \<comment> \<open>line 219: location name\<close>
  | StatusRetrying int            \<comment> \<open>line 238: status code\<close>
  | BodyText string               \<comment> \<open>lines 239 and 313: the response body as text\<close>
  | RetryFailed int               \<comment> \<open>line 242: status code\<close>
  | HoldFailed                    \<comment> \<open>line 259\<close>
  | HoldErrorMessage string       \<comment> \<open>line 260\<close>
  | SlotHeld                      \<comment> \<open>line 264\<close>
  | BookingAppointment            \<comment> \<open>line 271\<close>
  | CancelingExisting string      \<comment> \<open>line 273: confirmation number\<close>
  | AppointmentCancelled          \<comment> \<open>line 89\<close>
  | BookFailed                    \<comment> \<open>lines 300 and 312\<close>
  | BookingInfoJson               \<comment> \<open>line 301\<close>
  | Booked string                 \<comment> \<open>line 307: confirmation number\<close>
  | VisitUrl string               \<comment> \<open>line 308: confirmation number\<close>

datatype event =
    Request string payload int    \<comment> \<open>path, body, \<^verbatim>\<open>retryTime\<close>\<close>
  | LogInfo message
  | LogWarn message
  | LogError message
  | QueuePause
  | QueueStart

text \<open>
  A response of the Transport: its status code, its body read as text, and its body read
  by \<^verbatim>\<open>res.body.json()\<close> at each of the interface types the client casts it to.
\<close>

record response =
  statusCode :: int
  body_text :: string
  json_ExistBooking :: "ExistBookingResponse list"
  json_Eligibility :: "EligibilityResponse list"
  json_AvailableLocationDates :: AvailableLocationDatesResponse
  json_HoldSlot :: HoldSlotResponse
  json_BookSlot :: "BookSlotResponse option"   \<comment> \<open>\<open>None\<close> is a \<^verbatim>\<open>null\<close> body\<close>

text \<open>The Transport answers the \<open>n\<close>-th request of the process with \<open>tr n\<close>.\<close>

type_synonym transport = "nat \<Rightarrow> response"

record existBooking =
  exist :: bool
  response :: "ExistBookingResponse list"

text \<open>The fields of \<^verbatim>\<open>TexasScheduler\<close> that change, the requests sent and the effects so far.\<close>

record scheduler =
  existBooking :: "existBooking option"   \<comment> \<open>\<open>None\<close> is \<^verbatim>\<open>undefined\<close>\<close>
  isBooked :: bool
  isHolded :: bool
  queue_isPaused :: bool
  sent :: nat
  trace :: "event list"

text \<open>
  How an asynchronous method ends: it returns a value, its promise is rejected by
  \<^verbatim>\<open>Promise.reject()\<close>, it throws a \<^verbatim>\<open>TypeError\<close> on reading a property of
  \<^verbatim>\<open>undefined\<close> or \<^verbatim>\<open>null\<close>, or \<^verbatim>\<open>process.exit\<close> ends the process.
\<close>

datatype 'a outcome = Return 'a | Rejected | TypeError | Exit int

definition emit :: "event \<Rightarrow> scheduler \<Rightarrow> scheduler" where
  "emit e s = s\<lparr>trace := trace s @ [e]\<rparr>"

definition queue_pause :: "scheduler \<Rightarrow> scheduler" where
  "queue_pause s = emit QueuePause (s\<lparr>queue_isPaused := True\<rparr>)"

definition queue_start :: "scheduler \<Rightarrow> scheduler" where
  "queue_start s = emit QueueStart (s\<lparr>queue_isPaused := False\<rparr>)"

text \<open>\<^verbatim>\<open>await m\<close> followed by the rest of the method: anything but a return ends the method.\<close>

definition await :: "'a outcome \<times> scheduler \<Rightarrow> ('a \<Rightarrow> scheduler \<Rightarrow> 'b outcome \<times> scheduler)
    \<Rightarrow> 'b outcome \<times> scheduler" where
  "await m f =
     (case m of
        (Return x, s) \<Rightarrow> f x s
      | (Rejected, s) \<Rightarrow> (Rejected, s)
      | (TypeError, s) \<Rightarrow> (TypeError, s)
      | (Exit c, s) \<Rightarrow> (Exit c, s))"

text \<open>\<^verbatim>\<open>this.config.personalInfo.typeId || 71\<close>\<close>

definition typeId_or_71 :: "config \<Rightarrow> int" where
  "typeId_or_71 cfg = (case typeId cfg of None \<Rightarrow> 71 | Some n \<Rightarrow> if n = 0 then 71 else n)"

section \<open>Transport (\<^verbatim>\<open>requestApi\<close>, lines 224 to 246)\<close>

function requestApi :: "config \<Rightarrow> transport \<Rightarrow> string \<Rightarrow> payload \<Rightarrow> int \<Rightarrow> scheduler
    \<Rightarrow> response outcome \<times> scheduler" where
  "requestApi cfg tr path body retryTime s =
     (if statusCode (tr (sent s)) \<noteq> 200 then
        (if retryTime < maxRetry cfg then
           requestApi cfg tr path body (retryTime + 1)
             (emit (LogError (BodyText (body_text (tr (sent s)))))
               (emit (LogWarn (StatusRetrying (statusCode (tr (sent s)))))
                 (emit (Request path body retryTime) (s\<lparr>sent := Suc (sent s)\<rparr>))))
         else
           (Exit 1,
            emit (LogError (RetryFailed (statusCode (tr (sent s)))))
              (emit (Request path body retryTime) (s\<lparr>sent := Suc (sent s)\<rparr>))))
      else (Return (tr (sent s)), emit (Request path body retryTime) (s\<lparr>sent := Suc (sent s)\<rparr>)))"
  by pat_completeness auto
termination
  by (relation "measure (\<lambda>(cfg, tr, path, body, retryTime, s). nat (maxRetry cfg - retryTime))") auto

declare requestApi.simps [simp del]

section \<open>Existing-Booking Guard (\<^verbatim>\<open>checkExistBooking\<close>, lines 64 to 78)\<close>

definition checkExistBooking :: "config \<Rightarrow> transport \<Rightarrow> scheduler \<Rightarrow> existBooking outcome \<times> scheduler" where
  "checkExistBooking cfg tr s =
     await (requestApi cfg tr ''/api/Booking'' ExistBookingPayload 0 s)
       (\<lambda>res s1.
          let bookings = filter (\<lambda>booking. Some (ServiceTypeId booking) = typeId cfg)
                           (json_ExistBooking res)
          in if length bookings > 0
             then (Return \<lparr>exist = True, response = bookings\<rparr>, s1)
             else (Return \<lparr>exist = False, response = bookings\<rparr>, s1))"

section \<open>Booking State Machine\<close>

text \<open>\<^verbatim>\<open>cancelBooking\<close>, lines 80 to 90.\<close>

definition cancelBooking :: "config \<Rightarrow> transport \<Rightarrow> string \<Rightarrow> scheduler \<Rightarrow> unit outcome \<times> scheduler" where
  "cancelBooking cfg tr ConfirmationNumber' s =
     await (requestApi cfg tr ''/api/CancelBooking'' (CancelBookingPayload ConfirmationNumber') 0 s)
       (\<lambda>res s1. (Return (), emit (LogInfo AppointmentCancelled) s1))"

text \<open>\<^verbatim>\<open>getResponseId\<close>, lines 92 to 102; \<^verbatim>\<open>response[0]\<close> of an empty array is \<^verbatim>\<open>undefined\<close>.\<close>

definition getResponseId :: "config \<Rightarrow> transport \<Rightarrow> scheduler \<Rightarrow> int outcome \<times> scheduler" where
  "getResponseId cfg tr s =
     await (requestApi cfg tr ''/api/Eligibility'' EligibilityPayload 0 s)
       (\<lambda>res s1.
          case json_Eligibility res of
            [] \<Rightarrow> (TypeError, s1)
          | r # _ \<Rightarrow> (Return (ResponseId r), s1))"

text \<open>
  \<^verbatim>\<open>getLocationDates\<close>, lines 169 to 222. Line 208 reads
  \<^verbatim>\<open>filteredAvailabilityDates[0].AvailableTimeSlots[0]\<close>: of an empty array the first
  element is \<^verbatim>\<open>undefined\<close>, and reading a property of it throws. Line 216, the call of
  \<^verbatim>\<open>holdSlot\<close>, is a comment in the source: the method returns \<^verbatim>\<open>true\<close> after the
  policy check.
\<close>

definition selectBooking :: "LocationAvailabilityDate list \<Rightarrow> AvailableTimeSlots outcome" where
  "selectBooking dates =
     (case dates of
        [] \<Rightarrow> TypeError
      | date # _ \<Rightarrow>
          (case AvailableTimeSlots date of
             [] \<Rightarrow> TypeError
           | booking # _ \<Rightarrow> Return booking))"

definition getLocationDates :: "config \<Rightarrow> transport \<Rightarrow> AvailableLocationResponse \<Rightarrow> scheduler
    \<Rightarrow> bool outcome \<times> scheduler" where
  "getLocationDates cfg tr location s =
     await (requestApi cfg tr ''/api/AvailableLocationDates''
              (AvailableLocationDatesPayload (Id_loc location) (sameDay cfg) (typeId_or_71 cfg)) 0 s)
       (\<lambda>res s1.
          let dates = AvailableDates cfg (LocationAvailabilityDates (json_AvailableLocationDates res))
          in if length dates \<noteq> 0 then
               await (selectBooking (filteredAvailabilityDates cfg dates), s1)
                 (\<lambda>booking s2.
                    let s3 = emit (LogInfo (IsAvailable (Name location) (FormattedStartDateTime booking))) s2;
                        s4 = (if \<not> queue_isPaused s3 then queue_pause s3 else s3)
                    in if \<not> cancelIfExist cfg
                          \<and> (case existBooking s4 of None \<Rightarrow> False | Some eb \<Rightarrow> exist eb)
                       then (Exit 0, emit (LogWarn CancelDisabled) s4)
                       else (Return True, s4))
             else (Rejected, emit (LogInfo (NotAvailable (Name location))) s1))"

text \<open>\<^verbatim>\<open>bookSlot\<close>, lines 269 to 315.\<close>

definition cancelExisting :: "config \<Rightarrow> transport \<Rightarrow> scheduler \<Rightarrow> unit outcome \<times> scheduler" where
  \<comment> \<open>lines 272 to 275\<close>
  "cancelExisting cfg tr s =
     (case existBooking s of
        None \<Rightarrow> (Return (), s)
      | Some eb \<Rightarrow>
          if exist eb then
            (case response eb of
               [] \<Rightarrow> (TypeError, s)
             | b # _ \<Rightarrow>
                 cancelBooking cfg tr (ConfirmationNumber b)
                   (emit (LogInfo (CancelingExisting (ConfirmationNumber b))) s))
          else (Return (), s))"

definition bookSlot :: "config \<Rightarrow> transport \<Rightarrow> AvailableTimeSlots \<Rightarrow> AvailableLocationResponse
    \<Rightarrow> scheduler \<Rightarrow> unit outcome \<times> scheduler" where
  "bookSlot cfg tr booking location s =
     (if isBooked s then (Return (), s)
      else
        await (cancelExisting cfg tr (emit (LogInfo BookingAppointment) s))
          (\<lambda>_ s1.
        await (getResponseId cfg tr s1)
          (\<lambda>rid s2.
        await (requestApi cfg tr ''/api/NewBooking''
                 (BookSlotPayload (StartDateTime booking) (Duration booking) rid
                    (typeId_or_71 cfg) (Id_loc location)) 0 s2)
          (\<lambda>res s3.
             if statusCode res = 200 then
               (case json_BookSlot res of
                  None \<Rightarrow> (TypeError, s3)
                | Some bookingInfo \<Rightarrow>
                    (case Booking bookingInfo of
                       None \<Rightarrow>
                         (Return (),
                          (emit (LogError BookingInfoJson)
                            (emit (LogError BookFailed)
                              (if queue_isPaused s3 then queue_start s3 else s3)))
                          \<lparr>isHolded := False\<rparr>)
                     | Some b \<Rightarrow>
                         (Exit 0,
                          emit (LogInfo (VisitUrl (ConfirmationNumber_booking b)))
                            (emit (LogInfo (Booked (ConfirmationNumber_booking b)))
                              (s3\<lparr>isBooked := True\<rparr>)))))
             else
               (Return (),
                emit (LogError (BodyText (body_text res)))
                  (emit (LogError BookFailed)
                    (if queue_isPaused s3 then queue_start s3 else s3)))))))"

text \<open>\<^verbatim>\<open>holdSlot\<close>, lines 248 to 267.\<close>

definition holdSlot :: "config \<Rightarrow> transport \<Rightarrow> AvailableTimeSlots \<Rightarrow> AvailableLocationResponse
    \<Rightarrow> scheduler \<Rightarrow> unit outcome \<times> scheduler" where
  "holdSlot cfg tr booking location s =
     (if isHolded s then (Return (), s)
      else
        await (requestApi cfg tr ''/api/HoldSlot'' (HoldSlotPayload (SlotId booking)) 0 s)
          (\<lambda>res s1.
             if SlotHeldSuccessfully (json_HoldSlot res) \<noteq> True then
               (let s2 = emit (LogError (HoldErrorMessage (ErrorMessage (json_HoldSlot res))))
                           (emit (LogError HoldFailed) s1)
                in (Return (), if queue_isPaused s2 then queue_start s2 else s2))
             else
               bookSlot cfg tr booking location ((emit (LogInfo SlotHeld) s1)\<lparr>isHolded := True\<rparr>)))"

section \<open>Observations on a run\<close>

text \<open>The request attempts among the effects of a run, oldest first.\<close>

fun isRequest :: "event \<Rightarrow> bool" where
  "isRequest (Request _ _ _) = True"
| "isRequest _ = False"

definition requests :: "scheduler \<Rightarrow> event list" where
  "requests s = filter isRequest (trace s)"

text \<open>The requests to the hold endpoint among the effects of a run.\<close>

fun isHoldRequest :: "event \<Rightarrow> bool" where
  "isHoldRequest (Request path _ _) = (path = ''/api/HoldSlot'')"
| "isHoldRequest _ = False"

definition holdRequests :: "scheduler \<Rightarrow> event list" where
  "holdRequests s = filter isHoldRequest (trace s)"

section \<open>The filter as the specification words it\<close>

text \<open>
  Windowed mode in the words of the specification: the calendar day lies within
  \<open>[referenceDate + startOffsetDays, referenceDate + endOffsetDays]\<close>, inclusive at both
  endpoints, the weekday is preferred when weekdays are configured, and a slot survives
  the hour filter.
\<close>

definition spec_windowed_keep :: "config \<Rightarrow> LocationAvailabilityDate \<Rightarrow> bool" where
  "spec_windowed_keep cfg date =
     (calendarDay (daysAround_startDate cfg) + daysAround_start cfg \<le> calendarDay (AvailabilityDate date)
      \<and> calendarDay (AvailabilityDate date) \<le> calendarDay (daysAround_startDate cfg) + daysAround_end cfg
      \<and> (preferredDays cfg = [] \<or> dayjs_day (AvailabilityDate date) \<in> set (preferredDays cfg))
      \<and> filteredTimeSlots cfg date \<noteq> [])"

text \<open>
  Same-day mode in the words of the specification: every date whose slot list is
  non-empty passes, its slots untouched.
\<close>

definition spec_sameDay_filter :: "LocationAvailabilityDate list \<Rightarrow> LocationAvailabilityDate list" where
  "spec_sameDay_filter raw = filter (\<lambda>date. AvailableTimeSlots date \<noteq> []) raw"

section \<open>Concrete inputs\<close>

text \<open>
  A windowed configuration (days 1 to 7 after day 100, hours 8 to 12, two retries,
  cancelling an existing booking allowed) and its variants: same-day mode, and cancelling
  forbidden.
\<close>

definition config1 :: config where
  "config1 =
     \<lparr>typeId = Some 71, sameDay = False, preferredDays = [],
      daysAround_startDate = 100 * msPerDay, daysAround_start = 1, daysAround_end = 7,
      timesAround_start = 8, timesAround_end = 12,
      maxRetry = 2, cancelIfExist = True\<rparr>"

definition config_sameDay :: config where
  "config_sameDay = config1\<lparr>sameDay := True\<rparr>"

definition config_noCancel :: config where
  "config_noCancel = config1\<lparr>cancelIfExist := False\<rparr>"

text \<open>A slot on a given day at a given hour, a date at midnight of a given day, a location.\<close>

definition slot_at :: "int \<Rightarrow> int \<Rightarrow> int \<Rightarrow> AvailableTimeSlots" where
  "slot_at slotId day hour =
     \<lparr>SlotId = slotId, StartDateTime = day * msPerDay + hour * msPerHour, Duration = 30,
      FormattedStartDateTime = []\<rparr>"

definition date_with :: "int \<Rightarrow> AvailableTimeSlots list \<Rightarrow> LocationAvailabilityDate" where
  "date_with day slots = \<lparr>AvailabilityDate = day * msPerDay, AvailableTimeSlots = slots\<rparr>"

definition location0 :: AvailableLocationResponse where
  "location0 = \<lparr>Id_loc = 1, Name = ''Austin''\<rparr>"

text \<open>Two bookings of the operator, one of the configured type 71 and one of type 81.\<close>

definition booking71 :: ExistBookingResponse where
  "booking71 = \<lparr>ServiceTypeId = 71, ConfirmationNumber = ''A1'', SiteName = [], BookingDateTime = 0\<rparr>"

definition booking81 :: ExistBookingResponse where
  "booking81 = \<lparr>ServiceTypeId = 81, ConfirmationNumber = ''B2'', SiteName = [], BookingDateTime = 0\<rparr>"

text \<open>
  Responses: status 200 with empty bodies; that response with a list of dates; with the
  operator's bookings; and with a granted hold, a response id and \<^verbatim>\<open>Booking: null\<close>.
\<close>

definition response0 :: response where
  "response0 =
     \<lparr>statusCode = 200, body_text = [],
      json_ExistBooking = [], json_Eligibility = [],
      json_AvailableLocationDates = \<lparr>LocationAvailabilityDates = []\<rparr>,
      json_HoldSlot = \<lparr>SlotHeldSuccessfully = False, ErrorMessage = []\<rparr>,
      json_BookSlot = None\<rparr>"

definition response_dates :: "LocationAvailabilityDate list \<Rightarrow> response" where
  "response_dates raw = response0\<lparr>json_AvailableLocationDates := \<lparr>LocationAvailabilityDates = raw\<rparr>\<rparr>"

definition response_bookings :: response where
  "response_bookings = response0\<lparr>json_ExistBooking := [booking81, booking71]\<rparr>"

definition response_null_booking :: response where
  "response_null_booking =
     response0\<lparr>json_Eligibility := [\<lparr>ResponseId = 9\<rparr>],
               json_HoldSlot := \<lparr>SlotHeldSuccessfully = True, ErrorMessage = []\<rparr>,
               json_BookSlot := Some \<lparr>Booking = None\<rparr>\<rparr>"

text \<open>
  Transports: one that answers every request with the same response, one that answers
  every request with status 503, and one whose answer is a date inside the window with a
  slot at 10:00.
\<close>

definition transport_const :: "response \<Rightarrow> transport" where
  "transport_const r n = r"

definition transport_down :: transport where
  "transport_down n = response0\<lparr>statusCode := 503\<rparr>"

definition transport_available :: transport where
  "transport_available = transport_const (response_dates [date_with 103 [slot_at 1 103 10]])"

text \<open>
  Schedulers: as constructed; with an existing booking found at startup; and with the
  queue paused, as after a candidate was found.
\<close>

definition scheduler0 :: scheduler where
  "scheduler0 =
     \<lparr>existBooking = None, isBooked = False, isHolded = False, queue_isPaused = False,
      sent = 0, trace = []\<rparr>"

definition scheduler_existing :: scheduler where
  "scheduler_existing = scheduler0\<lparr>existBooking := Some \<lparr>exist = True, response = [booking71]\<rparr>\<rparr>"

definition scheduler_paused :: scheduler where
  "scheduler_paused = scheduler0\<lparr>queue_isPaused := True\<rparr>"

section \<open>Hour filter\<close>

text \<open>
  Claim C7. For every configured hour window \<open>[s, e)\<close> and every time slot of a date
  with local start hour \<open>h\<close>, the slot survives the hour filter iff \<open>s \<le> h\<close> and
  \<open>h < e\<close>; the end hour itself is excluded.
\<close>

theorem hour_filter_half_open:
  "set (filteredTimeSlots cfg date) =
     {timeSlot. timeSlot \<in> set (AvailableTimeSlots date)
        \<and> timesAround_start cfg \<le> dayjs_hour (StartDateTime timeSlot)
        \<and> dayjs_hour (StartDateTime timeSlot) < timesAround_end cfg}"
  by (auto simp: filteredTimeSlots_def hourFilter_def Let_def)

section \<open>Transport: the retry ceiling\<close>

text \<open>One step of \<^verbatim>\<open>requestApi\<close>, by the status of the response and the attempt counter.\<close>

lemma requestApi_retry:
  "statusCode (tr (sent s)) \<noteq> 200 \<Longrightarrow> retryTime < maxRetry cfg \<Longrightarrow>
   requestApi cfg tr path body retryTime s =
     requestApi cfg tr path body (retryTime + 1)
       (emit (LogError (BodyText (body_text (tr (sent s)))))
         (emit (LogWarn (StatusRetrying (statusCode (tr (sent s)))))
           (emit (Request path body retryTime) (s\<lparr>sent := Suc (sent s)\<rparr>))))"
  by (subst requestApi.simps) simp

lemma requestApi_fatal:
  "statusCode (tr (sent s)) \<noteq> 200 \<Longrightarrow> \<not> retryTime < maxRetry cfg \<Longrightarrow>
   requestApi cfg tr path body retryTime s =
     (Exit 1,
      emit (LogError (RetryFailed (statusCode (tr (sent s)))))
        (emit (Request path body retryTime) (s\<lparr>sent := Suc (sent s)\<rparr>)))"
  by (subst requestApi.simps) simp

lemma requestApi_ok:
  "statusCode (tr (sent s)) = 200 \<Longrightarrow>
   requestApi cfg tr path body retryTime s =
     (Return (tr (sent s)), emit (Request path body retryTime) (s\<lparr>sent := Suc (sent s)\<rparr>))"
  by (subst requestApi.simps) simp

lemma requests_emit [simp]:
  "requests (emit e s) = requests s @ (if isRequest e then [e] else [])"
  by (simp add: requests_def emit_def)

lemma sent_emit [simp]: "sent (emit e s) = sent s"
  by (simp add: emit_def)

lemma requests_sent_update [simp]: "requests (s\<lparr>sent := n\<rparr>) = requests s"
  by (simp add: requests_def)

lemma requestApi_always_failing:
  "\<forall>n. statusCode (tr n) \<noteq> 200 \<Longrightarrow> retryTime \<le> maxRetry cfg \<Longrightarrow>
    \<exists>s'. requestApi cfg tr path body retryTime s = (Exit 1, s')
       \<and> requests s' = requests s @ map (Request path body) [retryTime..maxRetry cfg]
       \<and> sent s' = sent s + nat (maxRetry cfg - retryTime) + 1"
proof (induction cfg tr path body retryTime s rule: requestApi.induct)
  case (1 cfg tr path body retryTime s)
  have bad: "statusCode (tr (sent s)) \<noteq> 200" using "1.prems" by simp
  show ?case
  proof (cases "retryTime < maxRetry cfg")
    case True
    let ?s1 = "emit (LogError (BodyText (body_text (tr (sent s)))))
         (emit (LogWarn (StatusRetrying (statusCode (tr (sent s)))))
           (emit (Request path body retryTime) (s\<lparr>sent := Suc (sent s)\<rparr>)))"
    from True have le: "retryTime + 1 \<le> maxRetry cfg" by simp
    from "1.IH"[OF bad True "1.prems"(1) le] obtain s' where
      s': "requestApi cfg tr path body (retryTime + 1) ?s1 = (Exit 1, s')"
          "requests s' = requests ?s1 @ map (Request path body) [retryTime + 1..maxRetry cfg]"
          "sent s' = sent ?s1 + nat (maxRetry cfg - (retryTime + 1)) + 1"
      by blast
    have upto: "[retryTime..maxRetry cfg] = retryTime # [retryTime + 1..maxRetry cfg]"
      using True by (simp add: upto_rec1)
    have "requestApi cfg tr path body retryTime s = (Exit 1, s')"
      using requestApi_retry[where tr=tr and s=s, OF bad True] s'(1) by simp
    moreover have "requests s' = requests s @ map (Request path body) [retryTime..maxRetry cfg]"
      using s'(2) upto by simp
    moreover have "sent s' = sent s + nat (maxRetry cfg - retryTime) + 1"
      using s'(3) True by (simp add: nat_diff_distrib')
    ultimately show ?thesis by blast
  next
    case False
    with "1.prems" have eq: "retryTime = maxRetry cfg" by simp
    show ?thesis
      using requestApi_fatal[where tr=tr and s=s, OF bad False] eq by simp
  qed
qed

text \<open>
  Claim C4. For a retry ceiling \<open>maxRetry = k\<close> with \<open>0 \<le> k\<close>, if the Transport answers
  every attempt with a non-success status, then \<open>k + 1\<close> request attempts are issued, with
  the counters 0 to \<open>k\<close>, and the process terminates with exit code 1; and for any
  attempt counter below \<open>k\<close> a non-success status causes a retry with the counter
  incremented by one.
\<close>

theorem retry_ceiling:
  assumes "0 \<le> maxRetry cfg" and "\<forall>n. statusCode (tr n) \<noteq> 200"
  shows "(\<exists>s'. requestApi cfg tr path body 0 s = (Exit 1, s')
            \<and> requests s' = requests s @ map (Request path body) [0..maxRetry cfg]
            \<and> sent s' = sent s + nat (maxRetry cfg) + 1)
       \<and> (\<forall>retryTime s0. retryTime < maxRetry cfg \<longrightarrow>
            requestApi cfg tr path body retryTime s0 =
              requestApi cfg tr path body (retryTime + 1)
                (emit (LogError (BodyText (body_text (tr (sent s0)))))
                  (emit (LogWarn (StatusRetrying (statusCode (tr (sent s0)))))
                    (emit (Request path body retryTime) (s0\<lparr>sent := Suc (sent s0)\<rparr>)))))"
proof
  show "\<exists>s'. requestApi cfg tr path body 0 s = (Exit 1, s')
            \<and> requests s' = requests s @ map (Request path body) [0..maxRetry cfg]
            \<and> sent s' = sent s + nat (maxRetry cfg) + 1"
    using requestApi_always_failing[OF assms(2) assms(1), of path body s] by simp
next
  show "\<forall>retryTime s0. retryTime < maxRetry cfg \<longrightarrow>
            requestApi cfg tr path body retryTime s0 =
              requestApi cfg tr path body (retryTime + 1)
                (emit (LogError (BodyText (body_text (tr (sent s0)))))
                  (emit (LogWarn (StatusRetrying (statusCode (tr (sent s0)))))
                    (emit (Request path body retryTime) (s0\<lparr>sent := Suc (sent s0)\<rparr>))))"
    using assms(2) by (simp add: requestApi_retry)
qed

theorem retry_ceiling_witness:
  "0 \<le> maxRetry config1 \<and> (\<forall>n. statusCode (transport_down n) \<noteq> 200)
   \<and> fst (requestApi config1 transport_down ''/api/Booking'' ExistBookingPayload 0 scheduler0) = Exit 1
   \<and> requests (snd (requestApi config1 transport_down ''/api/Booking'' ExistBookingPayload 0 scheduler0))
       = [Request ''/api/Booking'' ExistBookingPayload 0,
          Request ''/api/Booking'' ExistBookingPayload 1,
          Request ''/api/Booking'' ExistBookingPayload 2]
   \<and> sent (snd (requestApi config1 transport_down ''/api/Booking'' ExistBookingPayload 0 scheduler0)) = 3"
proof -
  have h1: "0 \<le> maxRetry config1" by (simp add: config1_def)
  have h2: "\<forall>n. statusCode (transport_down n) \<noteq> 200"
    by (simp add: transport_down_def response0_def)
  have up: "[0..2::int] = [0, 1, 2]" by (simp add: upto_rec1)
  from retry_ceiling[OF h1 h2, of "''/api/Booking''" ExistBookingPayload scheduler0]
  obtain s' where "requestApi config1 transport_down ''/api/Booking'' ExistBookingPayload 0 scheduler0 = (Exit 1, s')"
    "requests s' = requests scheduler0 @ map (Request ''/api/Booking'' ExistBookingPayload) [0..maxRetry config1]"
    "sent s' = sent scheduler0 + nat (maxRetry config1) + 1"
    by blast
  then show ?thesis
    using h1 h2 up by (simp add: config1_def scheduler0_def requests_def)
qed

section \<open>Availability Filter: the window of days\<close>

text \<open>On the wall-clock line, comparing by the unit \<^verbatim>\<open>'day'\<close> compares calendar days.\<close>

lemma msPerDay_pos: "0 < msPerDay" by (simp add: msPerDay_def)

lemma int_div_less_iff:
  fixes a d q :: int
  assumes "0 < d"
  shows "a div d < q \<longleftrightarrow> a < q * d"
proof
  assume "a div d < q"
  then have "(a div d + 1) * d \<le> q * d"
    using assms by (intro mult_right_mono) simp_all
  then have "a div d * d + d \<le> q * d"
    by (simp add: algebra_simps)
  moreover have "a mod d < d"
    using assms by simp
  moreover have "a = a div d * d + a mod d"
    by simp
  ultimately show "a < q * d"
    by linarith
next
  assume less: "a < q * d"
  show "a div d < q"
  proof (rule ccontr)
    assume "\<not> a div d < q"
    then have "q * d \<le> a div d * d"
      using assms by (intro mult_right_mono) simp_all
    moreover have "0 \<le> a mod d"
      using assms by simp
    moreover have "a = a div d * d + a mod d"
      by simp
    ultimately show False
      using less by linarith
  qed
qed

lemma isAfter_day_iff: "isAfter_day this that \<longleftrightarrow> calendarDay that < calendarDay this"
proof -
  have "startOf_day this = calendarDay this * msPerDay"
    by (simp add: startOf_day_def calendarDay_def minus_mod_eq_div_mult)
  then show ?thesis
    using int_div_less_iff[OF msPerDay_pos, of that "calendarDay this"]
    by (simp add: isAfter_day_def calendarDay_def)
qed

lemma isBefore_day_iff: "isBefore_day this that \<longleftrightarrow> calendarDay this < calendarDay that"
proof -
  have "endOf_day this = (calendarDay this + 1) * msPerDay - 1"
    by (simp add: endOf_day_def startOf_day_def calendarDay_def minus_mod_eq_div_mult algebra_simps)
  then have "isBefore_day this that \<longleftrightarrow> \<not> that < (calendarDay this + 1) * msPerDay"
    by (auto simp: isBefore_day_def)
  also have "\<dots> \<longleftrightarrow> \<not> calendarDay that < calendarDay this + 1"
    using int_div_less_iff[OF msPerDay_pos, of that "calendarDay this + 1"]
    by (simp add: calendarDay_def)
  finally show ?thesis by auto
qed

lemma calendarDay_add_day: "calendarDay (dayjs_add_day t n) = calendarDay t + n"
  using msPerDay_pos by (simp add: calendarDay_def dayjs_add_day_def)

lemma isBetween_day_add_iff:
  "isBetween_day this (dayjs_add_day t a) (dayjs_add_day t b) \<longleftrightarrow>
     (calendarDay t + a < calendarDay this \<and> calendarDay this < calendarDay t + b)
   \<or> (calendarDay t + b < calendarDay this \<and> calendarDay this < calendarDay t + a)"
  by (auto simp: isBetween_day_def isAfter_day_iff isBefore_day_iff calendarDay_add_day)

lemma filteredAvailabilityDates_eq:
  "filteredAvailabilityDates cfg dates =
     map (\<lambda>date. date\<lparr>AvailableTimeSlots := filteredTimeSlots cfg date\<rparr>)
       (filter (\<lambda>date. filteredTimeSlots cfg date \<noteq> []) dates)"
  by (simp add: filteredAvailabilityDates_def filter_map comp_def)

lemma windowFilter_iff:
  "windowFilter cfg date \<longleftrightarrow>
     ((calendarDay (daysAround_startDate cfg) + daysAround_start cfg < calendarDay (AvailabilityDate date)
        \<and> calendarDay (AvailabilityDate date) < calendarDay (daysAround_startDate cfg) + daysAround_end cfg)
      \<or> (calendarDay (daysAround_startDate cfg) + daysAround_end cfg < calendarDay (AvailabilityDate date)
        \<and> calendarDay (AvailabilityDate date) < calendarDay (daysAround_startDate cfg) + daysAround_start cfg))
     \<and> AvailableTimeSlots date \<noteq> []
     \<and> (preferredDays cfg = [] \<or> dayjs_day (AvailabilityDate date) \<in> set (preferredDays cfg))"
  by (simp add: windowFilter_def Let_def isBetween_day_add_iff)

lemma filteredTimeSlots_nonempty_raw:
  "filteredTimeSlots cfg date \<noteq> [] \<Longrightarrow> AvailableTimeSlots date \<noteq> []"
  by (auto simp: filteredTimeSlots_def)

text \<open>
  Claim C2, amended. In windowed mode a date is kept by the Availability Filter iff its
  calendar day lies strictly between \<open>referenceDate + startOffsetDays\<close> and
  \<open>referenceDate + endOffsetDays\<close> (both endpoint days are excluded, and the two bounds
  are taken in either order), and the preferred-weekday set is empty or holds the date's
  weekday, and the date has a slot surviving the hour filter. The kept dates come in input
  order, each with its slots narrowed to the surviving ones.
\<close>

theorem windowed_filter_keeps:
  assumes "\<not> sameDay cfg"
  shows "filteredAvailabilityDates cfg (AvailableDates cfg raw) =
     map (\<lambda>date. date\<lparr>AvailableTimeSlots := filteredTimeSlots cfg date\<rparr>)
       (filter (\<lambda>date.
          ((calendarDay (daysAround_startDate cfg) + daysAround_start cfg < calendarDay (AvailabilityDate date)
             \<and> calendarDay (AvailabilityDate date) < calendarDay (daysAround_startDate cfg) + daysAround_end cfg)
           \<or> (calendarDay (daysAround_startDate cfg) + daysAround_end cfg < calendarDay (AvailabilityDate date)
             \<and> calendarDay (AvailabilityDate date) < calendarDay (daysAround_startDate cfg) + daysAround_start cfg))
          \<and> (preferredDays cfg = [] \<or> dayjs_day (AvailabilityDate date) \<in> set (preferredDays cfg))
          \<and> filteredTimeSlots cfg date \<noteq> []) raw)"
proof -
  have "filter (\<lambda>date. filteredTimeSlots cfg date \<noteq> []) (filter (windowFilter cfg) raw) =
        filter (\<lambda>date.
          ((calendarDay (daysAround_startDate cfg) + daysAround_start cfg < calendarDay (AvailabilityDate date)
             \<and> calendarDay (AvailabilityDate date) < calendarDay (daysAround_startDate cfg) + daysAround_end cfg)
           \<or> (calendarDay (daysAround_startDate cfg) + daysAround_end cfg < calendarDay (AvailabilityDate date)
             \<and> calendarDay (AvailabilityDate date) < calendarDay (daysAround_startDate cfg) + daysAround_start cfg))
          \<and> (preferredDays cfg = [] \<or> dayjs_day (AvailabilityDate date) \<in> set (preferredDays cfg))
          \<and> filteredTimeSlots cfg date \<noteq> []) raw"
    unfolding filter_filter
    by (rule filter_cong) (auto simp: windowFilter_iff dest: filteredTimeSlots_nonempty_raw)
  then show ?thesis
    using assms by (simp add: filteredAvailabilityDates_eq AvailableDates_def)
qed

lemma dayjs_hour_slot_at:
  "0 \<le> hour \<Longrightarrow> hour < 24 \<Longrightarrow> dayjs_hour (day * msPerDay + hour * msPerHour) = hour"
  by (simp add: dayjs_hour_def msPerDay_def msPerHour_def)

lemma calendarDay_slot: "calendarDay (day * msPerDay) = day"
  by (simp add: calendarDay_def msPerDay_def)

text \<open>Days 101 and 107 are the endpoints of the window; only days 102 and 106 are kept.\<close>

theorem windowed_filter_keeps_witness:
  "\<not> sameDay config1
   \<and> filteredAvailabilityDates config1
       (AvailableDates config1
          [date_with 101 [slot_at 1 101 10], date_with 102 [slot_at 2 102 7, slot_at 3 102 10],
           date_with 106 [slot_at 4 106 11], date_with 107 [slot_at 5 107 10]])
     = [date_with 102 [slot_at 3 102 10], date_with 106 [slot_at 4 106 11]]"
  using windowed_filter_keeps[of config1
          "[date_with 101 [slot_at 1 101 10], date_with 102 [slot_at 2 102 7, slot_at 3 102 10],
           date_with 106 [slot_at 4 106 11], date_with 107 [slot_at 5 107 10]]"]
  by (simp add: config1_def date_with_def slot_at_def filteredTimeSlots_def hourFilter_def
      Let_def calendarDay_slot dayjs_hour_slot_at)

text \<open>
  Claim C2 as stated fails: a date on the day \<open>referenceDate + startOffsetDays\<close>, with a
  slot at 10:00 inside the hour window, is within the inclusive window and is not kept.
\<close>

theorem windowed_inclusive_counterexample:
  "\<not> sameDay config1
   \<and> spec_windowed_keep config1 (date_with 101 [slot_at 1 101 10])
   \<and> filteredAvailabilityDates config1 (AvailableDates config1 [date_with 101 [slot_at 1 101 10]]) = []"
  by (simp add: spec_windowed_keep_def filteredAvailabilityDates_eq AvailableDates_def
      windowFilter_iff config1_def date_with_def slot_at_def filteredTimeSlots_def hourFilter_def
      Let_def calendarDay_slot dayjs_hour_slot_at)

text \<open>
  Claim C6, amended. In same-day mode no window of days and no preferred weekday narrows
  the dates, but the hour filter applies as in windowed mode: the Availability Filter
  passes, in input order, every date that has a slot surviving the hour filter, with its
  slots narrowed to the surviving ones.
\<close>

theorem sameDay_filter_keeps:
  assumes "sameDay cfg"
  shows "filteredAvailabilityDates cfg (AvailableDates cfg raw) =
     map (\<lambda>date. date\<lparr>AvailableTimeSlots := filteredTimeSlots cfg date\<rparr>)
       (filter (\<lambda>date. filteredTimeSlots cfg date \<noteq> []) raw)"
  using assms by (simp add: filteredAvailabilityDates_eq AvailableDates_def)

text \<open>A date far outside the window of days passes; its slot at 7:00 does not.\<close>

theorem sameDay_filter_keeps_witness:
  "sameDay config_sameDay
   \<and> filteredAvailabilityDates config_sameDay
       (AvailableDates config_sameDay
          [date_with 500 [slot_at 1 500 7, slot_at 2 500 10], date_with 501 [slot_at 3 501 13]])
     = [date_with 500 [slot_at 2 500 10]]"
  using sameDay_filter_keeps[of config_sameDay
          "[date_with 500 [slot_at 1 500 7, slot_at 2 500 10], date_with 501 [slot_at 3 501 13]]"]
  by (simp add: config_sameDay_def config1_def date_with_def slot_at_def filteredTimeSlots_def
      hourFilter_def Let_def dayjs_hour_slot_at)

text \<open>
  Claim C6 as stated fails: in same-day mode a date whose only slot is at 7:00, outside
  the hour window, has a non-empty slot list and does not pass; and of a date with slots
  at 7:00 and 10:00 only the slot at 10:00 is left.
\<close>

theorem sameDay_no_narrowing_counterexample:
  "sameDay config_sameDay
   \<and> spec_sameDay_filter [date_with 500 [slot_at 1 500 7]] = [date_with 500 [slot_at 1 500 7]]
   \<and> filteredAvailabilityDates config_sameDay
       (AvailableDates config_sameDay [date_with 500 [slot_at 1 500 7]]) = []
   \<and> spec_sameDay_filter [date_with 500 [slot_at 1 500 7, slot_at 2 500 10]]
       = [date_with 500 [slot_at 1 500 7, slot_at 2 500 10]]
   \<and> filteredAvailabilityDates config_sameDay
       (AvailableDates config_sameDay [date_with 500 [slot_at 1 500 7, slot_at 2 500 10]])
       = [date_with 500 [slot_at 2 500 10]]"
  by (simp add: spec_sameDay_filter_def filteredAvailabilityDates_def AvailableDates_def
      config_sameDay_def config1_def date_with_def slot_at_def filteredTimeSlots_def
      hourFilter_def Let_def dayjs_hour_slot_at)

section \<open>Candidate selection\<close>

lemma filter_Cons_holds: "filter P xs = x # ys \<Longrightarrow> P x"
  by (metis list.set_intros(1) mem_Collect_eq set_filter)

lemma selectBooking_filtered:
  "selectBooking (filteredAvailabilityDates cfg dates) =
     (case filter (\<lambda>date. filteredTimeSlots cfg date \<noteq> []) dates of
        [] \<Rightarrow> TypeError
      | date # _ \<Rightarrow> Return (hd (filteredTimeSlots cfg date)))"
  by (auto simp: selectBooking_def filteredAvailabilityDates_eq split: list.splits
      dest: filter_Cons_holds)

text \<open>
  Claim C5. Selecting the candidate reads \<^verbatim>\<open>filteredAvailabilityDates[0]\<close> and then
  \<^verbatim>\<open>AvailableTimeSlots[0]\<close>; the reads are in bounds iff some date has a non-empty
  filtered slot list. On a non-empty list of dates whose slots the hour filter all
  removes, the first element of the empty filtered list is read and the method throws.
\<close>

theorem selection_in_bounds_iff:
  "selectBooking (filteredAvailabilityDates cfg dates) \<noteq> TypeError
     \<longleftrightarrow> (\<exists>date \<in> set dates. filteredTimeSlots cfg date \<noteq> [])"
proof -
  have "filter (\<lambda>date. filteredTimeSlots cfg date \<noteq> []) dates = []
          \<longleftrightarrow> \<not> (\<exists>date \<in> set dates. filteredTimeSlots cfg date \<noteq> [])"
    by (simp add: filter_empty_conv)
  then show ?thesis
    by (auto simp: selectBooking_filtered split: list.splits)
qed

text \<open>
  Every slot of the only date is at 7:00, before the hour window: the date list is not
  empty, the selection is out of bounds, and \<^verbatim>\<open>getLocationDates\<close> throws.
\<close>

theorem selection_in_bounds_iff_witness:
  "AvailableDates config_sameDay [date_with 500 [slot_at 1 500 7]] \<noteq> []
   \<and> selectBooking (filteredAvailabilityDates config_sameDay
        (AvailableDates config_sameDay [date_with 500 [slot_at 1 500 7]])) = TypeError
   \<and> fst (getLocationDates config_sameDay
        (transport_const (response_dates [date_with 500 [slot_at 1 500 7]])) location0 scheduler0)
       = TypeError"
proof -
  have none: "filteredTimeSlots config_sameDay (date_with 500 [slot_at 1 500 7]) = []"
    by (simp add: config_sameDay_def config1_def date_with_def slot_at_def filteredTimeSlots_def
        hourFilter_def Let_def dayjs_hour_slot_at)
  have dates: "AvailableDates config_sameDay [date_with 500 [slot_at 1 500 7]]
                 = [date_with 500 [slot_at 1 500 7]]"
    by (simp add: AvailableDates_def config_sameDay_def)
  have sel: "selectBooking (filteredAvailabilityDates config_sameDay
               [date_with 500 [slot_at 1 500 7]]) = TypeError"
    using selection_in_bounds_iff[of config_sameDay "[date_with 500 [slot_at 1 500 7]]"] none
    by simp
  have "fst (getLocationDates config_sameDay
          (transport_const (response_dates [date_with 500 [slot_at 1 500 7]])) location0 scheduler0)
        = TypeError"
    by (simp add: getLocationDates_def requestApi_ok transport_const_def response_dates_def
        response0_def await_def dates sel)
  then show ?thesis
    using dates sel by simp
qed

lemma find_filter_Cons: "filter P xs = x # ys \<Longrightarrow> find P xs = Some x"
  by (induction xs) (auto split: if_splits)

lemma AvailableDates_filter:
  "AvailableDates cfg raw = filter (\<lambda>date. sameDay cfg \<or> windowFilter cfg date) raw"
  by (simp add: AvailableDates_def)

text \<open>
  Claim C8. When the filtered result holds a date, the chosen candidate is the first
  slot, in input order, that survives the hour filter within the first date, in input
  order, that passes the filters and has a surviving slot; timestamps are not compared.
\<close>

theorem candidate_first_in_input_order:
  assumes "filteredAvailabilityDates cfg (AvailableDates cfg raw) \<noteq> []"
  shows "\<exists>date timeSlot.
           find (\<lambda>date. (sameDay cfg \<or> windowFilter cfg date) \<and> filteredTimeSlots cfg date \<noteq> []) raw
             = Some date
         \<and> find (hourFilter cfg) (AvailableTimeSlots date) = Some timeSlot
         \<and> selectBooking (filteredAvailabilityDates cfg (AvailableDates cfg raw)) = Return timeSlot"
proof -
  let ?keep = "\<lambda>date. (sameDay cfg \<or> windowFilter cfg date) \<and> filteredTimeSlots cfg date \<noteq> []"
  have kept: "filter (\<lambda>date. filteredTimeSlots cfg date \<noteq> []) (AvailableDates cfg raw) = filter ?keep raw"
    unfolding AvailableDates_filter filter_filter by (rule filter_cong) auto
  with assms obtain date rest where cons: "filter ?keep raw = date # rest"
    by (cases "filter ?keep raw") (simp_all add: filteredAvailabilityDates_eq)
  then have first: "find ?keep raw = Some date"
    by (rule find_filter_Cons)
  from cons have "?keep date"
    by (rule filter_Cons_holds)
  then obtain timeSlot others where slots: "filter (hourFilter cfg) (AvailableTimeSlots date) = timeSlot # others"
    by (cases "filter (hourFilter cfg) (AvailableTimeSlots date)") (simp_all add: filteredTimeSlots_def)
  then have slot: "find (hourFilter cfg) (AvailableTimeSlots date) = Some timeSlot"
    by (rule find_filter_Cons)
  have "selectBooking (filteredAvailabilityDates cfg (AvailableDates cfg raw)) = Return timeSlot"
    using cons slots kept by (simp add: selectBooking_filtered filteredTimeSlots_def)
  with first slot show ?thesis by blast
qed

text \<open>
  The first date in input order is day 103, and its first surviving slot is at 11:00;
  the slot at 9:00 of that day and the slot of day 102 are earlier and are not chosen.
\<close>

theorem candidate_first_in_input_order_witness:
  "filteredAvailabilityDates config1
     (AvailableDates config1
        [date_with 103 [slot_at 1 103 7, slot_at 2 103 11, slot_at 3 103 9],
         date_with 102 [slot_at 4 102 8]]) \<noteq> []
   \<and> selectBooking (filteredAvailabilityDates config1
        (AvailableDates config1
           [date_with 103 [slot_at 1 103 7, slot_at 2 103 11, slot_at 3 103 9],
            date_with 102 [slot_at 4 102 8]])) = Return (slot_at 2 103 11)
   \<and> hourFilter config1 (slot_at 3 103 9)
   \<and> StartDateTime (slot_at 3 103 9) < StartDateTime (slot_at 2 103 11)
   \<and> StartDateTime (slot_at 4 102 8) < StartDateTime (slot_at 2 103 11)"
proof -
  let ?raw = "[date_with 103 [slot_at 1 103 7, slot_at 2 103 11, slot_at 3 103 9],
               date_with 102 [slot_at 4 102 8]]"
  have ev: "filteredAvailabilityDates config1 (AvailableDates config1 ?raw)
              = [date_with 103 [slot_at 2 103 11, slot_at 3 103 9], date_with 102 [slot_at 4 102 8]]"
    by (simp add: filteredAvailabilityDates_def AvailableDates_def windowFilter_iff config1_def
        date_with_def slot_at_def filteredTimeSlots_def hourFilter_def Let_def calendarDay_slot
        dayjs_hour_slot_at)
  then have ne: "filteredAvailabilityDates config1 (AvailableDates config1 ?raw) \<noteq> []"
    by simp
  from candidate_first_in_input_order[OF ne] obtain date timeSlot where
    "selectBooking (filteredAvailabilityDates config1 (AvailableDates config1 ?raw)) = Return timeSlot"
    by blast
  then have "selectBooking (filteredAvailabilityDates config1 (AvailableDates config1 ?raw))
               = Return (slot_at 2 103 11)"
    unfolding ev by (simp add: selectBooking_def date_with_def)
  moreover have "hourFilter config1 (slot_at 3 103 9)"
    by (simp add: hourFilter_def slot_at_def config1_def dayjs_hour_slot_at)
  moreover have "StartDateTime (slot_at 3 103 9) < StartDateTime (slot_at 2 103 11)"
    "StartDateTime (slot_at 4 102 8) < StartDateTime (slot_at 2 103 11)"
    by (simp_all add: slot_at_def msPerDay_def msPerHour_def)
  ultimately show ?thesis using ne by simp
qed

section \<open>What a request leaves unchanged\<close>

lemma emit_fields [simp]:
  "existBooking (emit e s) = existBooking s"
  "isBooked (emit e s) = isBooked s"
  "isHolded (emit e s) = isHolded s"
  "queue_isPaused (emit e s) = queue_isPaused s"
  "trace (emit e s) = trace s @ [e]"
  by (simp_all add: emit_def)

lemma holdRequests_emit [simp]:
  "holdRequests (emit e s) = holdRequests s @ (if isHoldRequest e then [e] else [])"
  by (simp add: holdRequests_def)

lemma holdRequests_update [simp]:
  "holdRequests (s\<lparr>sent := n\<rparr>) = holdRequests s"
  "holdRequests (s\<lparr>queue_isPaused := b\<rparr>) = holdRequests s"
  "holdRequests (s\<lparr>isHolded := b\<rparr>) = holdRequests s"
  "holdRequests (s\<lparr>isBooked := b\<rparr>) = holdRequests s"
  by (simp_all add: holdRequests_def)

lemma requestApi_frame:
  "requestApi cfg tr path body retryTime s = (out, s') \<Longrightarrow>
     existBooking s' = existBooking s \<and> isBooked s' = isBooked s
     \<and> isHolded s' = isHolded s \<and> queue_isPaused s' = queue_isPaused s"
proof (induction cfg tr path body retryTime s rule: requestApi.induct)
  case (1 cfg tr path body retryTime s)
  show ?case
  proof (cases "statusCode (tr (sent s)) = 200")
    case True
    with "1.prems" show ?thesis
      by (auto simp: requestApi_ok)
  next
    case bad: False
    show ?thesis
    proof (cases "retryTime < maxRetry cfg")
      case True
      with bad "1.prems" "1.IH" show ?thesis
        by (simp add: requestApi_retry)
    next
      case False
      with bad "1.prems" show ?thesis
        by (auto simp: requestApi_fatal)
    qed
  qed
qed

lemma requestApi_holdRequests:
  "requestApi cfg tr path body retryTime s = (out, s') \<Longrightarrow> path \<noteq> ''/api/HoldSlot'' \<Longrightarrow>
     holdRequests s' = holdRequests s"
proof (induction cfg tr path body retryTime s rule: requestApi.induct)
  case (1 cfg tr path body retryTime s)
  show ?case
  proof (cases "statusCode (tr (sent s)) = 200")
    case True
    with "1.prems" show ?thesis
      by (auto simp: requestApi_ok)
  next
    case bad: False
    show ?thesis
    proof (cases "retryTime < maxRetry cfg")
      case True
      with bad "1.prems" "1.IH" show ?thesis
        by (simp add: requestApi_retry)
    next
      case False
      with bad "1.prems" show ?thesis
        by (auto simp: requestApi_fatal)
    qed
  qed
qed

lemma requestApi_outcome:
  "requestApi cfg tr path body retryTime s = (out, s') \<Longrightarrow>
     out = Exit 1 \<or> (\<exists>res. out = Return res \<and> statusCode res = 200)"
proof (induction cfg tr path body retryTime s rule: requestApi.induct)
  case (1 cfg tr path body retryTime s)
  show ?case
  proof (cases "statusCode (tr (sent s)) = 200")
    case True
    with "1.prems" show ?thesis
      by (auto simp: requestApi_ok)
  next
    case bad: False
    show ?thesis
    proof (cases "retryTime < maxRetry cfg")
      case True
      with bad "1.prems" "1.IH" show ?thesis
        by (simp add: requestApi_retry)
    next
      case False
      with bad "1.prems" show ?thesis
        by (auto simp: requestApi_fatal)
    qed
  qed
qed

section \<open>Existing-Booking Guard\<close>

text \<open>
  Claim C10. When the booking query is answered, the guard keeps the entries of the
  booking list whose service-type id equals the configured appointment-type id, returns
  that filtered list as the bookings, and returns \<open>exist = True\<close> iff it is non-empty.
\<close>

theorem checkExistBooking_filters_by_type:
  assumes "requestApi cfg tr ''/api/Booking'' ExistBookingPayload 0 s = (Return res, s1)"
  shows "checkExistBooking cfg tr s =
     (Return \<lparr>exist = (filter (\<lambda>booking. Some (ServiceTypeId booking) = typeId cfg)
                          (json_ExistBooking res) \<noteq> []),
              response = filter (\<lambda>booking. Some (ServiceTypeId booking) = typeId cfg)
                          (json_ExistBooking res)\<rparr>,
      s1)"
  using assms by (simp add: checkExistBooking_def await_def Let_def)

theorem checkExistBooking_filters_by_type_witness:
  "requestApi config1 (transport_const response_bookings) ''/api/Booking'' ExistBookingPayload 0 scheduler0
     = (Return response_bookings,
        emit (Request ''/api/Booking'' ExistBookingPayload 0) (scheduler0\<lparr>sent := 1\<rparr>))
   \<and> fst (checkExistBooking config1 (transport_const response_bookings) scheduler0)
     = Return \<lparr>exist = True, response = [booking71]\<rparr>"
proof -
  have req: "requestApi config1 (transport_const response_bookings) ''/api/Booking'' ExistBookingPayload 0 scheduler0
     = (Return response_bookings,
        emit (Request ''/api/Booking'' ExistBookingPayload 0) (scheduler0\<lparr>sent := 1\<rparr>))"
    by (simp add: requestApi_ok transport_const_def response_bookings_def response0_def scheduler0_def)
  show ?thesis
    using req checkExistBooking_filters_by_type[OF req]
    by (simp add: response_bookings_def response0_def config1_def booking71_def booking81_def)
qed

section \<open>Booking State Machine: from scanning to holding\<close>

lemma getLocationDates_found:
  assumes req: "requestApi cfg tr ''/api/AvailableLocationDates''
             (AvailableLocationDatesPayload (Id_loc location) (sameDay cfg) (typeId_or_71 cfg)) 0 s
           = (Return res, s1)"
    and found: "filteredAvailabilityDates cfg
             (AvailableDates cfg (LocationAvailabilityDates (json_AvailableLocationDates res))) \<noteq> []"
  shows "\<exists>booking s4.
           selectBooking (filteredAvailabilityDates cfg
             (AvailableDates cfg (LocationAvailabilityDates (json_AvailableLocationDates res))))
             = Return booking
         \<and> s4 = (let s3 = emit (LogInfo (IsAvailable (Name location) (FormattedStartDateTime booking))) s1
                 in if \<not> queue_isPaused s3 then queue_pause s3 else s3)
         \<and> getLocationDates cfg tr location s =
             (if \<not> cancelIfExist cfg \<and> (case existBooking s4 of None \<Rightarrow> False | Some eb \<Rightarrow> exist eb)
              then (Exit 0, emit (LogWarn CancelDisabled) s4)
              else (Return True, s4))"
proof -
  let ?dates = "AvailableDates cfg (LocationAvailabilityDates (json_AvailableLocationDates res))"
  from found have ne: "?dates \<noteq> []"
    by (auto simp: filteredAvailabilityDates_def)
  from found obtain date rest where "filter (\<lambda>date. filteredTimeSlots cfg date \<noteq> []) ?dates = date # rest"
    by (auto simp: filteredAvailabilityDates_eq neq_Nil_conv)
  then have sel: "selectBooking (filteredAvailabilityDates cfg ?dates) = Return (hd (filteredTimeSlots cfg date))"
    by (simp add: selectBooking_filtered)
  show ?thesis
    using req ne sel by (simp add: getLocationDates_def await_def Let_def)
qed

lemma queue_pause_fields [simp]:
  "existBooking (queue_pause s) = existBooking s"
  "holdRequests (queue_pause s) = holdRequests s"
  "queue_isPaused (queue_pause s) = True"
  "isHolded (queue_pause s) = isHolded s"
  "isBooked (queue_pause s) = isBooked s"
  by (simp_all add: queue_pause_def)

text \<open>
  Claim C3, amended. When an existing booking exists, the cancel-if-exists flag is false
  and a filtered candidate is found, the process terminates before any hold request is
  sent, and it terminates with exit code 0.
\<close>

theorem existing_booking_policy_exit:
  assumes "existBooking s = Some eb" and "exist eb" and "\<not> cancelIfExist cfg"
    and req: "requestApi cfg tr ''/api/AvailableLocationDates''
             (AvailableLocationDatesPayload (Id_loc location) (sameDay cfg) (typeId_or_71 cfg)) 0 s
           = (Return res, s1)"
    and found: "filteredAvailabilityDates cfg
             (AvailableDates cfg (LocationAvailabilityDates (json_AvailableLocationDates res))) \<noteq> []"
  shows "\<exists>s'. getLocationDates cfg tr location s = (Exit 0, s') \<and> holdRequests s' = holdRequests s"
proof -
  from getLocationDates_found[OF req found] obtain booking :: AvailableTimeSlots and s4 where
    s4: "s4 = (let s3 = emit (LogInfo (IsAvailable (Name location) (FormattedStartDateTime booking))) s1
               in if \<not> queue_isPaused s3 then queue_pause s3 else s3)"
    and run: "getLocationDates cfg tr location s =
             (if \<not> cancelIfExist cfg \<and> (case existBooking s4 of None \<Rightarrow> False | Some eb \<Rightarrow> exist eb)
              then (Exit 0, emit (LogWarn CancelDisabled) s4)
              else (Return True, s4))"
    by blast
  have "existBooking s1 = existBooking s"
    using requestApi_frame[OF req] by simp
  then have eb: "existBooking s4 = Some eb"
    using s4 assms(1) by (simp add: Let_def)
  have "holdRequests s1 = holdRequests s"
    using requestApi_holdRequests[OF req] by simp
  then have "holdRequests (emit (LogWarn CancelDisabled) s4) = holdRequests s"
    using s4 by (simp add: Let_def)
  then show ?thesis
    using run eb assms(2,3) by simp
qed

theorem existing_booking_policy_exit_witness:
  "existBooking scheduler_existing = Some \<lparr>exist = True, response = [booking71]\<rparr>
   \<and> \<not> cancelIfExist config_noCancel
   \<and> fst (getLocationDates config_noCancel transport_available location0 scheduler_existing) = Exit 0
   \<and> holdRequests (snd (getLocationDates config_noCancel transport_available location0 scheduler_existing)) = []"
proof -
  let ?res = "response_dates [date_with 103 [slot_at 1 103 10]]"
  have h1: "existBooking scheduler_existing = Some \<lparr>exist = True, response = [booking71]\<rparr>"
    by (simp add: scheduler_existing_def)
  have h2: "exist \<lparr>exist = True, response = [booking71]\<rparr>"
    by simp
  have h3: "\<not> cancelIfExist config_noCancel"
    by (simp add: config_noCancel_def)
  have h4: "requestApi config_noCancel transport_available ''/api/AvailableLocationDates''
             (AvailableLocationDatesPayload (Id_loc location0) (sameDay config_noCancel)
                (typeId_or_71 config_noCancel)) 0 scheduler_existing
           = (Return ?res,
              emit (Request ''/api/AvailableLocationDates''
                      (AvailableLocationDatesPayload (Id_loc location0) (sameDay config_noCancel)
                         (typeId_or_71 config_noCancel)) 0)
                (scheduler_existing\<lparr>sent := Suc (sent scheduler_existing)\<rparr>))"
    by (simp add: requestApi_ok transport_available_def transport_const_def response_dates_def
        response0_def)
  have h5: "filteredAvailabilityDates config_noCancel
             (AvailableDates config_noCancel (LocationAvailabilityDates (json_AvailableLocationDates ?res)))
           \<noteq> []"
    by (simp add: response_dates_def response0_def filteredAvailabilityDates_def AvailableDates_def
        windowFilter_iff config_noCancel_def config1_def date_with_def slot_at_def
        filteredTimeSlots_def hourFilter_def Let_def calendarDay_slot dayjs_hour_slot_at)
  from existing_booking_policy_exit[OF h1 h2 h3 h4 h5]
  obtain s' where run: "getLocationDates config_noCancel transport_available location0 scheduler_existing = (Exit 0, s')"
    and hold: "holdRequests s' = holdRequests scheduler_existing"
    by blast
  have none: "holdRequests scheduler_existing = []"
    by (simp add: holdRequests_def scheduler_existing_def scheduler0_def)
  have r1: "fst (getLocationDates config_noCancel transport_available location0 scheduler_existing) = Exit 0"
    by (simp only: run fst_conv)
  have r2: "holdRequests (snd (getLocationDates config_noCancel transport_available location0 scheduler_existing)) = []"
    by (simp only: run snd_conv hold none)
  from h1 h3 r1 r2 show ?thesis
    by (intro conjI)
qed

text \<open>
  Claim C3 as stated fails in its exit code: with an existing booking, cancelling
  forbidden and a candidate found, the process ends with exit code 0.
\<close>

theorem policy_exit_code_counterexample:
  "getLocationDates config_noCancel transport_available location0 scheduler_existing =
     (Exit 0,
      scheduler_existing
        \<lparr>queue_isPaused := True, sent := 1,
         trace := [Request ''/api/AvailableLocationDates'' (AvailableLocationDatesPayload 1 False 71) 0,
                   LogInfo (IsAvailable ''Austin'' []), QueuePause, LogWarn CancelDisabled]\<rparr>)"
  by (simp add: getLocationDates_def requestApi_ok await_def Let_def transport_available_def
      transport_const_def response_dates_def response0_def filteredAvailabilityDates_def
      AvailableDates_def windowFilter_iff config_noCancel_def config1_def date_with_def slot_at_def
      filteredTimeSlots_def hourFilter_def calendarDay_slot dayjs_hour_slot_at selectBooking_def
      scheduler_existing_def scheduler0_def location0_def typeId_or_71_def emit_def queue_pause_def)

text \<open>
  Claim C1. The claim asks that a hold request is issued whenever a filtered candidate is
  found and the pre-hold policy check passes. The code does not do so: with no existing
  booking, a location answering with a date inside the window and a slot at 10:00 is
  found available, the queue is paused, and the method returns \<^verbatim>\<open>true\<close> with the one
  request for the dates as its only request.
\<close>

theorem candidate_found_no_hold_request:
  "getLocationDates config1 transport_available location0 scheduler0 =
     (Return True,
      scheduler0
        \<lparr>queue_isPaused := True, sent := 1,
         trace := [Request ''/api/AvailableLocationDates'' (AvailableLocationDatesPayload 1 False 71) 0,
                   LogInfo (IsAvailable ''Austin'' []), QueuePause]\<rparr>)"
  by (simp add: getLocationDates_def requestApi_ok await_def Let_def transport_available_def
      transport_const_def response_dates_def response0_def filteredAvailabilityDates_def
      AvailableDates_def windowFilter_iff config1_def date_with_def slot_at_def
      filteredTimeSlots_def hourFilter_def calendarDay_slot dayjs_hour_slot_at selectBooking_def
      scheduler0_def location0_def typeId_or_71_def emit_def queue_pause_def)

text \<open>No run of \<^verbatim>\<open>getLocationDates\<close> sends a request to the hold endpoint.\<close>

lemma getLocationDates_sends_no_hold:
  "holdRequests (snd (getLocationDates cfg tr location s)) = holdRequests s"
proof (cases "requestApi cfg tr ''/api/AvailableLocationDates''
          (AvailableLocationDatesPayload (Id_loc location) (sameDay cfg) (typeId_or_71 cfg)) 0 s")
  case (Pair out s1)
  then have "holdRequests s1 = holdRequests s"
    by (rule requestApi_holdRequests) simp
  with Pair show ?thesis
    by (cases out)
       (auto simp: getLocationDates_def await_def Let_def split: outcome.splits)
qed

text \<open>The guard of \<^verbatim>\<open>holdSlot\<close>: with the in-flight flag set it returns at once.\<close>

lemma holdSlot_in_flight:
  "isHolded s \<Longrightarrow> holdSlot cfg tr booking location s = (Return (), s)"
  by (simp add: holdSlot_def)

section \<open>Booking State Machine: a booking answered with no booking object\<close>

lemma cancelExisting_isBooked:
  "cancelExisting cfg tr s = (out, s') \<Longrightarrow> isBooked s' = isBooked s"
  by (auto simp: cancelExisting_def cancelBooking_def await_def
      split: option.splits if_splits list.splits prod.splits outcome.splits
      dest: requestApi_frame)

lemma getResponseId_isBooked:
  "getResponseId cfg tr s = (out, s') \<Longrightarrow> isBooked s' = isBooked s"
  by (auto simp: getResponseId_def await_def
      split: list.splits prod.splits outcome.splits dest: requestApi_frame)

lemma queue_start_fields [simp]:
  "queue_isPaused (queue_start s) = False"
  "isHolded (queue_start s) = isHolded s"
  "isBooked (queue_start s) = isBooked s"
  "trace (queue_start s) = trace s @ [QueueStart]"
  by (simp_all add: queue_start_def)

lemma bookSlot_null_booking:
  assumes "\<not> isBooked s"
    and cancel: "cancelExisting cfg tr (emit (LogInfo BookingAppointment) s) = (Return (), s1)"
    and elig: "getResponseId cfg tr s1 = (Return rid, s2)"
    and book: "requestApi cfg tr ''/api/NewBooking''
             (BookSlotPayload (StartDateTime booking) (Duration booking) rid
                (typeId_or_71 cfg) (Id_loc location)) 0 s2
           = (Return res, s3)"
    and null: "json_BookSlot res = Some bookingInfo" "Booking bookingInfo = None"
  shows "bookSlot cfg tr booking location s =
     (Return (),
      (emit (LogError BookingInfoJson)
        (emit (LogError BookFailed) (if queue_isPaused s3 then queue_start s3 else s3)))
      \<lparr>isHolded := False\<rparr>)"
proof -
  have "statusCode res = 200"
    using requestApi_outcome[OF book] by simp
  then show ?thesis
    using assms by (simp add: bookSlot_def await_def)
qed

lemma holdSlot_null_booking:
  assumes "\<not> isHolded s" and "\<not> isBooked s"
    and hold: "requestApi cfg tr ''/api/HoldSlot'' (HoldSlotPayload (SlotId booking)) 0 s
           = (Return held, s1)"
    and granted: "SlotHeldSuccessfully (json_HoldSlot held)"
    and cancel: "cancelExisting cfg tr
             (emit (LogInfo BookingAppointment) ((emit (LogInfo SlotHeld) s1)\<lparr>isHolded := True\<rparr>))
           = (Return (), s2)"
    and elig: "getResponseId cfg tr s2 = (Return rid, s3)"
    and book: "requestApi cfg tr ''/api/NewBooking''
             (BookSlotPayload (StartDateTime booking) (Duration booking) rid
                (typeId_or_71 cfg) (Id_loc location)) 0 s3
           = (Return res, s4)"
    and null: "json_BookSlot res = Some bookingInfo" "Booking bookingInfo = None"
  shows "holdSlot cfg tr booking location s =
     (Return (),
      (emit (LogError BookingInfoJson)
        (emit (LogError BookFailed) (if queue_isPaused s4 then queue_start s4 else s4)))
      \<lparr>isHolded := False\<rparr>)"
proof -
  have "\<not> isBooked ((emit (LogInfo SlotHeld) s1)\<lparr>isHolded := True\<rparr>)"
    using requestApi_frame[OF hold] assms(2) by simp
  from bookSlot_null_booking[OF this cancel elig book null] show ?thesis
    using assms(1) hold granted by (simp add: holdSlot_def await_def)
qed

text \<open>
  Claim C9. When the hold succeeded and the booking request is answered with HTTP
  success status and a null Booking object, the attempt ends in Failed: the queue is
  started if it was paused, the error is logged, the in-flight (held) flag is cleared,
  and the method returns; the process does not exit and nothing is booked.
\<close>

theorem null_booking_resumes_polling:
  assumes "\<not> isHolded s" and "\<not> isBooked s"
    and hold: "requestApi cfg tr ''/api/HoldSlot'' (HoldSlotPayload (SlotId booking)) 0 s
           = (Return held, s1)"
    and granted: "SlotHeldSuccessfully (json_HoldSlot held)"
    and cancel: "cancelExisting cfg tr
             (emit (LogInfo BookingAppointment) ((emit (LogInfo SlotHeld) s1)\<lparr>isHolded := True\<rparr>))
           = (Return (), s2)"
    and elig: "getResponseId cfg tr s2 = (Return rid, s3)"
    and book: "requestApi cfg tr ''/api/NewBooking''
             (BookSlotPayload (StartDateTime booking) (Duration booking) rid
                (typeId_or_71 cfg) (Id_loc location)) 0 s3
           = (Return res, s4)"
    and null: "json_BookSlot res = Some bookingInfo" "Booking bookingInfo = None"
  shows "\<exists>s'. holdSlot cfg tr booking location s = (Return (), s')
           \<and> statusCode res = 200
           \<and> trace s' = trace s4 @ (if queue_isPaused s4 then [QueueStart] else [])
                              @ [LogError BookFailed, LogError BookingInfoJson]
           \<and> \<not> isHolded s' \<and> \<not> queue_isPaused s' \<and> \<not> isBooked s'"
proof -
  let ?held = "(emit (LogInfo SlotHeld) s1)\<lparr>isHolded := True\<rparr>"
  let ?s' = "(emit (LogError BookingInfoJson)
               (emit (LogError BookFailed) (if queue_isPaused s4 then queue_start s4 else s4)))
             \<lparr>isHolded := False\<rparr>"
  have b1: "\<not> isBooked ?held"
    using requestApi_frame[OF hold] assms(2) by simp
  have run: "holdSlot cfg tr booking location s = (Return (), ?s')"
    by (rule holdSlot_null_booking[OF assms])
  have "isBooked s2 = isBooked ?held"
    using cancelExisting_isBooked[OF cancel] by simp
  moreover have "isBooked s3 = isBooked s2"
    by (rule getResponseId_isBooked[OF elig])
  moreover have "isBooked s4 = isBooked s3"
    using requestApi_frame[OF book] by simp
  ultimately have b4: "\<not> isBooked s4"
    using b1 by simp
  have "statusCode res = 200"
    using requestApi_outcome[OF book] by simp
  moreover have "trace ?s' = trace s4 @ (if queue_isPaused s4 then [QueueStart] else [])
                              @ [LogError BookFailed, LogError BookingInfoJson]"
    "\<not> isHolded ?s'"
    "\<not> queue_isPaused ?s'" "\<not> isBooked ?s'"
    using b4 by simp_all
  ultimately show ?thesis
    using run by blast
qed

theorem null_booking_resumes_polling_witness:
  "fst (holdSlot config1 (transport_const response_null_booking) (slot_at 1 103 10) location0
          scheduler_paused) = Return ()
   \<and> trace (snd (holdSlot config1 (transport_const response_null_booking) (slot_at 1 103 10)
          location0 scheduler_paused))
     = [Request ''/api/HoldSlot'' (HoldSlotPayload 1) 0, LogInfo SlotHeld,
        LogInfo BookingAppointment,
        Request ''/api/Eligibility'' EligibilityPayload 0,
        Request ''/api/NewBooking''
          (BookSlotPayload (StartDateTime (slot_at 1 103 10)) 30 9 71 1) 0,
        QueueStart, LogError BookFailed, LogError BookingInfoJson]
   \<and> \<not> isHolded (snd (holdSlot config1 (transport_const response_null_booking)
          (slot_at 1 103 10) location0 scheduler_paused))
   \<and> \<not> queue_isPaused (snd (holdSlot config1 (transport_const response_null_booking)
          (slot_at 1 103 10) location0 scheduler_paused))"
proof -
  let ?tr = "transport_const response_null_booking"
  let ?booking = "slot_at 1 103 10"
  let ?s1 = "emit (Request ''/api/HoldSlot'' (HoldSlotPayload (SlotId ?booking)) 0)
               (scheduler_paused\<lparr>sent := Suc (sent scheduler_paused)\<rparr>)"
  let ?s2 = "emit (LogInfo BookingAppointment) ((emit (LogInfo SlotHeld) ?s1)\<lparr>isHolded := True\<rparr>)"
  let ?s3 = "emit (Request ''/api/Eligibility'' EligibilityPayload 0) (?s2\<lparr>sent := Suc (sent ?s2)\<rparr>)"
  let ?body = "BookSlotPayload (StartDateTime ?booking) (Duration ?booking) 9
                 (typeId_or_71 config1) (Id_loc location0)"
  let ?s4 = "emit (Request ''/api/NewBooking'' ?body 0) (?s3\<lparr>sent := Suc (sent ?s3)\<rparr>)"
  have ok: "\<And>n. statusCode (?tr n) = 200"
    by (simp add: transport_const_def response_null_booking_def response0_def)
  have h1: "\<not> isHolded scheduler_paused" and h2: "\<not> isBooked scheduler_paused"
    by (simp_all add: scheduler_paused_def scheduler0_def)
  have h3: "requestApi config1 ?tr ''/api/HoldSlot'' (HoldSlotPayload (SlotId ?booking)) 0 scheduler_paused
              = (Return response_null_booking, ?s1)"
    using ok by (simp add: requestApi_ok) (simp add: transport_const_def)
  have h4: "SlotHeldSuccessfully (json_HoldSlot response_null_booking)"
    by (simp add: response_null_booking_def)
  have h5: "cancelExisting config1 ?tr ?s2 = (Return (), ?s2)"
    by (simp add: cancelExisting_def scheduler_paused_def scheduler0_def)
  have h6: "getResponseId config1 ?tr ?s2 = (Return 9, ?s3)"
    using ok by (simp add: getResponseId_def requestApi_ok await_def)
      (simp add: transport_const_def response_null_booking_def)
  have h7: "requestApi config1 ?tr ''/api/NewBooking'' ?body 0 ?s3 = (Return response_null_booking, ?s4)"
    using ok by (simp add: requestApi_ok) (simp add: transport_const_def)
  have h8: "json_BookSlot response_null_booking = Some \<lparr>Booking = None\<rparr>"
    by (simp add: response_null_booking_def)
  have h9: "Booking \<lparr>Booking = None\<rparr> = None"
    by simp
  from null_booking_resumes_polling[OF h1 h2 h3 h4 h5 h6 h7 h8 h9]
  obtain s' where run: "holdSlot config1 ?tr ?booking location0 scheduler_paused = (Return (), s')"
    and flags: "\<not> isHolded s'" "\<not> queue_isPaused s'"
    by blast
  have "holdSlot config1 ?tr ?booking location0 scheduler_paused =
     (Return (),
      (emit (LogError BookingInfoJson)
        (emit (LogError BookFailed) (if queue_isPaused ?s4 then queue_start ?s4 else ?s4)))
      \<lparr>isHolded := False\<rparr>)"
    by (rule holdSlot_null_booking[OF h1 h2 h3 h4 h5 h6 h7 h8 h9])
  then have tr: "trace (snd (holdSlot config1 ?tr ?booking location0 scheduler_paused))
     = [Request ''/api/HoldSlot'' (HoldSlotPayload 1) 0, LogInfo SlotHeld,
        LogInfo BookingAppointment,
        Request ''/api/Eligibility'' EligibilityPayload 0,
        Request ''/api/NewBooking'' (BookSlotPayload (StartDateTime ?booking) 30 9 71 1) 0,
        QueueStart, LogError BookFailed, LogError BookingInfoJson]"
    by (simp add: scheduler_paused_def scheduler0_def slot_at_def location0_def config1_def
        typeId_or_71_def)
  show ?thesis
    using run flags tr by simp
qed

end
